theory Spec2Isabelle
  imports
    Complex_Main
    "HOL-Library.AList"
    "HOL-Library.Char_ord"
    "HOL-Library.List_Lexorder"
    "HOL-Library.Multiset"
begin

section \<open>Provenance validation scripts: values and records\<close>

text \<open>
  The two scripts \<^verbatim>\<open>run_provenance_extended_validation.py\<close> and
  \<^verbatim>\<open>run_llm_provenance_validation.py\<close> work on flat records of type
  \<^verbatim>\<open>dict[str, Any]\<close>. A value is observed by the code in exactly three ways: its truth
  value (\<^verbatim>\<open>not derived.get(k)\<close>), its string form (\<^verbatim>\<open>str(...)\<close>) and its JSON
  encoding (\<^verbatim>\<open>json.dumps\<close>). The scalar values \<^verbatim>\<open>None\<close>, booleans, integers and
  strings are modelled as such; \<open>VObj s t\<close> stands for an object of any type that
  \<^verbatim>\<open>json.dumps\<close> does not encode (a set, bytes, a datetime), given by its string form
  \<open>s\<close> and its truth value \<open>t\<close>. Floats, nested lists and nested dictionaries are not
  modelled. Strings are lists of 8-bit characters read as code points below 256.
\<close>

datatype pyval = VNone | VBool bool | VInt int | VStr string | VObj string bool

datatype error = TypeError | IndexError | ZeroDivisionError

text \<open>A dictionary keeps insertion order; \<open>AList.update\<close> is \<^verbatim>\<open>d[k] = v\<close>.\<close>

type_synonym pyrecord = "(string \<times> pyval) list"

definition get_default :: "pyrecord \<Rightarrow> string \<Rightarrow> pyval \<Rightarrow> pyval" where
  "get_default d k dflt = (case map_of d k of None \<Rightarrow> dflt | Some v \<Rightarrow> v)"

text \<open>\<^verbatim>\<open>d.get(k)\<close> without a default returns \<^verbatim>\<open>None\<close>.\<close>

definition get :: "pyrecord \<Rightarrow> string \<Rightarrow> pyval" where
  "get d k = get_default d k VNone"

fun truthy :: "pyval \<Rightarrow> bool" where
  "truthy VNone = False"
| "truthy (VBool b) = b"
| "truthy (VInt i) = (i \<noteq> 0)"
| "truthy (VStr s) = (s \<noteq> [])"
| "truthy (VObj s t) = t"

definition digit_char :: "nat \<Rightarrow> char" where
  "digit_char n = char_of (48 + n)"

fun str_nat :: "nat \<Rightarrow> string" where
  "str_nat n = (if n < 10 then [digit_char n] else str_nat (n div 10) @ [digit_char (n mod 10)])"

declare str_nat.simps [simp del]

definition str_int :: "int \<Rightarrow> string" where
  "str_int i = (if i < 0 then CHR ''-'' # str_nat (nat (- i)) else str_nat (nat i))"

fun py_str :: "pyval \<Rightarrow> string" where
  "py_str VNone = ''None''"
| "py_str (VBool b) = (if b then ''True'' else ''False'')"
| "py_str (VInt i) = str_int i"
| "py_str (VStr s) = s"
| "py_str (VObj s t) = s"

text \<open>The recurring source expression \<^verbatim>\<open>str(rec.get(k, ""))\<close>.\<close>

definition field_str :: "pyrecord \<Rightarrow> string \<Rightarrow> string" where
  "field_str d k = py_str (get_default d k (VStr []))"

section \<open>Fault injection: index selection\<close>

text \<open>
  \<^verbatim>\<open>inject_indices(n, frac, seed)\<close> (the same in both scripts). The fraction is a finite
  float in the source, and floats are not modelled: \<open>fraction\<close> names the float by the
  decimal that the source writes, and the parameter \<open>scale n fraction\<close> is the value of
  \<^verbatim>\<open>int(n * frac)\<close>, the float product truncated towards zero. The product is rounded
  before it is truncated: \<^verbatim>\<open>100 * 0.29\<close> is \<^verbatim>\<open>28.999999999999996\<close>, so
  \<^verbatim>\<open>int(100 * 0.29)\<close> is 28. The parameter \<open>shuffle seed xs\<close> is the list \<open>xs\<close> after
  \<^verbatim>\<open>random.Random(seed).shuffle\<close>: the generator is created and seeded inside the call,
  so the result depends on the seed and the list only.
\<close>

definition inject_indices ::
  "(int \<Rightarrow> nat list \<Rightarrow> nat list) \<Rightarrow> (nat \<Rightarrow> rat \<Rightarrow> int) \<Rightarrow> nat \<Rightarrow> rat \<Rightarrow> int \<Rightarrow> nat list" where
  "inject_indices shuffle scale n fraction seed =
     (let k = max 1 (scale n fraction);
          idxs = shuffle seed [0..<n]
      in sort (take (nat k) idxs))"

section \<open>Canonical JSON and fingerprints\<close>

text \<open>
  \<^verbatim>\<open>json.dumps(value, sort_keys=True, ensure_ascii=True, separators=(",", ":"))\<close> on a
  record. With \<^verbatim>\<open>ensure_ascii\<close> every character outside the printable ASCII range, the
  backslash and the double quote are escaped. (\<open>CHR 0x5C\<close> is the backslash and
  \<open>CHR 0x22\<close> the double quote.)
\<close>

definition hex_digit :: "nat \<Rightarrow> char" where
  "hex_digit n = (if n < 10 then char_of (48 + n) else char_of (87 + n))"

definition escape_char :: "char \<Rightarrow> string" where
  "escape_char c =
     (if c = CHR 0x5C then [CHR 0x5C, CHR 0x5C]
      else if c = CHR 0x22 then [CHR 0x5C, CHR 0x22]
      else if c = CHR 0x08 then [CHR 0x5C, CHR ''b'']
      else if c = CHR 0x0C then [CHR 0x5C, CHR ''f'']
      else if c = CHR 0x0A then [CHR 0x5C, CHR ''n'']
      else if c = CHR 0x0D then [CHR 0x5C, CHR ''r'']
      else if c = CHR 0x09 then [CHR 0x5C, CHR ''t'']
      else if (of_char c :: nat) < 32 \<or> 126 < (of_char c :: nat)
        then [CHR 0x5C, CHR ''u'', CHR ''0'', CHR ''0'',
              hex_digit (of_char c div 16), hex_digit (of_char c mod 16)]
      else [c])"

definition json_string :: "string \<Rightarrow> string" where
  "json_string s = CHR 0x22 # concat (map escape_char s) @ [CHR 0x22]"

text \<open>A value of a type the encoder does not know raises \<^verbatim>\<open>TypeError\<close>.\<close>

fun json_value :: "pyval \<Rightarrow> error + string" where
  "json_value VNone = Inr ''null''"
| "json_value (VBool b) = Inr (if b then ''true'' else ''false'')"
| "json_value (VInt i) = Inr (str_int i)"
| "json_value (VStr s) = Inr (json_string s)"
| "json_value (VObj s t) = Inl TypeError"

fun json_items :: "pyrecord \<Rightarrow> error + string list" where
  "json_items [] = Inr []"
| "json_items ((k, v) # kvs) =
     (case json_value v of
        Inl e \<Rightarrow> Inl e
      | Inr s \<Rightarrow>
          (case json_items kvs of
             Inl e \<Rightarrow> Inl e
           | Inr ss \<Rightarrow> Inr ((json_string k @ '':'' @ s) # ss)))"

fun join_comma :: "string list \<Rightarrow> string" where
  "join_comma [] = []"
| "join_comma [s] = s"
| "join_comma (s # t # ss) = s @ '','' @ join_comma (t # ss)"

text \<open>\<^verbatim>\<open>canonical_json\<close> on a record: the items are sorted by key.\<close>

definition canonical_json :: "pyrecord \<Rightarrow> error + string" where
  "canonical_json d =
     (case json_items (sort_key fst d) of
        Inl e \<Rightarrow> Inl e
      | Inr ss \<Rightarrow> Inr (''{'' @ join_comma ss @ ''}''))"

text \<open>
  \<^verbatim>\<open>sha256_value\<close>. The parameter \<open>sha256\<close> is
  \<^verbatim>\<open>hashlib.sha256(s.encode("utf-8")).hexdigest()\<close>, a function of the standard library.
\<close>

definition sha256_value :: "(string \<Rightarrow> string) \<Rightarrow> pyrecord \<Rightarrow> error + string" where
  "sha256_value sha256 d =
     (case canonical_json d of Inl e \<Rightarrow> Inl e | Inr s \<Rightarrow> Inr (sha256 s))"


text \<open>
  \<^verbatim>\<open>source_by_hash = {h: rec for h, rec in zip(source_hashes, source)}\<close>: a later pair
  overwrites an earlier one with the same key.
\<close>

definition source_by_hash :: "string list \<Rightarrow> pyrecord list \<Rightarrow> (string \<rightharpoonup> pyrecord)" where
  "source_by_hash hs source = map_of (rev (zip hs source))"

section \<open>Lineage builder and audit policy\<close>

definition transform_provenance :: "pyrecord \<Rightarrow> string list \<Rightarrow> string \<Rightarrow> string \<Rightarrow> pyrecord" where
  "transform_provenance src_rec mandatory_fields parent_hash generated_at =
     fold (\<lambda>f out. AList.update f (get_default src_rec f (VStr [])) out) mandatory_fields
       [(''generated_label'', VStr ''DERIVED_RECORD''),
        (''generated_by'', VStr ''deterministic_transform_v2''),
        (''generated_at'', VStr generated_at),
        (''parent_sha256'', VStr parent_hash),
        (''summary'', VStr [])]"

definition lineage_complete :: "pyrecord \<Rightarrow> bool" where
  "lineage_complete derived =
     list_all (\<lambda>k. truthy (get derived k))
       [''generated_label'', ''generated_by'', ''generated_at'', ''parent_sha256'']"

text \<open>
  \<^verbatim>\<open>audit_record\<close> of the extended script; \<^verbatim>\<open>if not src\<close> holds for \<^verbatim>\<open>None\<close> and
  for the empty dictionary.
\<close>

definition audit_record :: "string set \<Rightarrow> (string \<rightharpoonup> pyrecord) \<Rightarrow> pyrecord \<Rightarrow> string list \<Rightarrow> bool" where
  "audit_record source_hash_set by_hash derived mandatory_fields =
     (if \<not> lineage_complete derived then False
      else let parent = field_str derived ''parent_sha256'' in
        if parent \<notin> source_hash_set then False
        else (case by_hash parent of
                None \<Rightarrow> False
              | Some src \<Rightarrow>
                  (if src = [] then False
                   else list_all (\<lambda>f. field_str derived f = field_str src f) mandatory_fields)))"

text \<open>\<^verbatim>\<open>audit_one_hop\<close> of the LLM script: the same body.\<close>

definition audit_one_hop :: "string set \<Rightarrow> (string \<rightharpoonup> pyrecord) \<Rightarrow> pyrecord \<Rightarrow> string list \<Rightarrow> bool" where
  "audit_one_hop source_hash_set by_hash derived mandatory_fields =
     (if \<not> lineage_complete derived then False
      else let parent = field_str derived ''parent_sha256'' in
        if parent \<notin> source_hash_set then False
        else (case by_hash parent of
                None \<Rightarrow> False
              | Some src \<Rightarrow>
                  (if src = [] then False
                   else list_all (\<lambda>f. field_str derived f = field_str src f) mandatory_fields)))"

definition audit_two_hop ::
  "string set \<Rightarrow> (string \<rightharpoonup> pyrecord) \<Rightarrow> string set \<Rightarrow> (string \<rightharpoonup> pyrecord) \<Rightarrow> pyrecord \<Rightarrow> string list \<Rightarrow> bool" where
  "audit_two_hop source_hash_set by_hash hop1_hash_set hop1_by_hash derived mandatory_fields =
     (if \<not> lineage_complete derived then False
      else let parent = field_str derived ''parent_sha256'';
               ancestor = field_str derived ''ancestor_source_sha256'' in
        if parent \<notin> hop1_hash_set then False
        else if ancestor \<notin> source_hash_set then False
        else (case hop1_by_hash parent of
                None \<Rightarrow> False
              | Some hop1 \<Rightarrow>
                  (if hop1 = [] then False
                   else if field_str hop1 ''parent_sha256'' \<noteq> ancestor then False
                   else (case by_hash ancestor of
                           None \<Rightarrow> False
                         | Some src \<Rightarrow>
                             (if src = [] then False
                              else list_all (\<lambda>f. field_str derived f = field_str src f)
                                     mandatory_fields)))))"

section \<open>Scenario metrics\<close>

text \<open>
  The report of one scenario. The rates are floats in the source and exact rationals here;
  \<^verbatim>\<open>/\<close> raises \<^verbatim>\<open>ZeroDivisionError\<close> on a zero divisor.
\<close>

record scenario_report =
  scenario :: string
  injected_count :: nat
  failed_count :: nat
  audit_pass_rate :: rat
  audit_fail_rate :: rat
  detection_recall :: "rat option"
  false_positive_rate :: rat

text \<open>
  \<^verbatim>\<open>failed = [i for i, d in enumerate(mutated) if not check(d)]\<close>, the first statement
  of both \<^verbatim>\<open>scenario_result\<close> functions.
\<close>

definition failed_indices :: "(pyrecord \<Rightarrow> bool) \<Rightarrow> pyrecord list \<Rightarrow> nat list" where
  "failed_indices check mutated = filter (\<lambda>i. \<not> check (mutated ! i)) [0..<length mutated]"

text \<open>
  \<^verbatim>\<open>scenario_result\<close>, nested in \<^verbatim>\<open>run_failure_scenarios\<close>: \<open>n\<close>, the fingerprint set,
  the fingerprint map and the mandatory fields are variables of the enclosing function.
\<close>

definition scenario_result ::
  "nat \<Rightarrow> string set \<Rightarrow> (string \<rightharpoonup> pyrecord) \<Rightarrow> string list \<Rightarrow> string \<Rightarrow> pyrecord list \<Rightarrow> nat list
     \<Rightarrow> error + scenario_report" where
  "scenario_result n source_hash_set by_hash mandatory_fields name mutated injected_idxs =
     (let failed = failed_indices (\<lambda>d. audit_record source_hash_set by_hash d mandatory_fields) mutated;
          inj = set injected_idxs;
          fail = set failed;
          recall = (if inj \<noteq> {} then Some (of_nat (card (inj \<inter> fail)) / of_nat (card inj)) else None);
          fp = (if inj \<noteq> {}
                then of_nat (card (Set.filter (\<lambda>i. i \<notin> inj) fail)) / of_int (max 1 (int n - int (card inj)))
                else of_nat (card fail) / of_int (max 1 (int n)))
      in if n = 0 then Inl ZeroDivisionError
         else Inr \<lparr> scenario = name,
                    injected_count = length injected_idxs,
                    failed_count = length failed,
                    audit_pass_rate = of_int (int n - int (length failed)) / of_nat n,
                    audit_fail_rate = of_nat (length failed) / of_nat n,
                    detection_recall = recall,
                    false_positive_rate = fp \<rparr>)"

text \<open>\<^verbatim>\<open>scenario_result\<close> of the LLM script: \<open>n\<close> is the number of mutated records.\<close>

definition scenario_result_llm ::
  "string \<Rightarrow> pyrecord list \<Rightarrow> nat list \<Rightarrow> (pyrecord \<Rightarrow> bool) \<Rightarrow> error + scenario_report" where
  "scenario_result_llm name mutated injected_idxs check_fn =
     (let n = length mutated;
          failed = failed_indices check_fn mutated;
          inj = set injected_idxs;
          fail = set failed;
          recall = (if inj \<noteq> {} then Some (of_nat (card (inj \<inter> fail)) / of_nat (card inj)) else None);
          fp = (if inj \<noteq> {}
                then of_nat (card (Set.filter (\<lambda>i. i \<notin> inj) fail)) / of_int (max 1 (int n - int (card inj)))
                else of_nat (card fail) / of_int (max 1 (int n)))
      in if n = 0 then Inl ZeroDivisionError
         else Inr \<lparr> scenario = name,
                    injected_count = length injected_idxs,
                    failed_count = length failed,
                    audit_pass_rate = of_int (int n - int (length failed)) / of_nat n,
                    audit_fail_rate = of_nat (length failed) / of_nat n,
                    detection_recall = recall,
                    false_positive_rate = fp \<rparr>)"

section \<open>Fault scenarios on a store of records\<close>

text \<open>
  The scenarios copy the derivative records and assign to fields of the copies. Records
  are objects: the store is the list of all dictionaries, a reference is an index into
  it, and a new dictionary is appended. Every function returns the store, also when it
  raises.
\<close>

type_synonym addr = nat
type_synonym heap = "pyrecord list"

text \<open>\<^verbatim>\<open>[dict(x) for x in prov_records]\<close>\<close>

fun copy_records :: "addr list \<Rightarrow> heap \<Rightarrow> addr list \<times> heap" where
  "copy_records [] h = ([], h)"
| "copy_records (x # xs) h =
     (case copy_records xs (h @ [h ! x]) of (as, h') \<Rightarrow> (length h # as, h'))"

text \<open>
  \<^verbatim>\<open>for i in idx: mut[i][key] = val\<close>, where the value may depend on \<open>i\<close> and is computed
  before \<^verbatim>\<open>mut[i]\<close> is read.
\<close>

fun assign_field ::
  "addr list \<Rightarrow> string \<Rightarrow> (nat \<Rightarrow> error + pyval) \<Rightarrow> nat list \<Rightarrow> heap \<Rightarrow> (error + unit) \<times> heap" where
  "assign_field mut key val [] h = (Inr (), h)"
| "assign_field mut key val (i # idx) h =
     (case val i of
        Inl e \<Rightarrow> (Inl e, h)
      | Inr v \<Rightarrow>
          (if i < length mut
           then assign_field mut key val idx (h[mut ! i := AList.update key v (h ! (mut ! i))])
           else (Inl IndexError, h)))"

text \<open>
  The mutated copies of one fault scenario: copy the records, evaluate the field name
  (\<^verbatim>\<open>mandatory_fields[0]\<close> may raise), assign.
\<close>

definition mutated_copies ::
  "error + string \<Rightarrow> (nat \<Rightarrow> error + pyval) \<Rightarrow> nat list \<Rightarrow> addr list \<Rightarrow> heap
     \<Rightarrow> (error + addr list) \<times> heap" where
  "mutated_copies key val idx prov_records h =
     (case copy_records prov_records h of
        (mut, h1) \<Rightarrow>
          (case key of
             Inl e \<Rightarrow> (Inl e, h1)
           | Inr k \<Rightarrow>
               (case assign_field mut k val idx h1 of
                  (Inl e, h2) \<Rightarrow> (Inl e, h2)
                | (Inr u, h2) \<Rightarrow> (Inr mut, h2))))"

text \<open>
  One fault scenario: select the indices, mutate copies, score. \<open>score\<close> is the
  scenario-result function with its name argument first.
\<close>

definition inject_scenario ::
  "(int \<Rightarrow> nat list \<Rightarrow> nat list) \<Rightarrow> (nat \<Rightarrow> rat \<Rightarrow> int)
     \<Rightarrow> (string \<Rightarrow> pyrecord list \<Rightarrow> nat list \<Rightarrow> error + scenario_report)
     \<Rightarrow> nat \<Rightarrow> rat \<Rightarrow> int \<Rightarrow> string \<Rightarrow> error + string \<Rightarrow> (nat \<Rightarrow> error + pyval)
     \<Rightarrow> addr list \<Rightarrow> heap \<Rightarrow> (error + scenario_report) \<times> heap" where
  "inject_scenario shuffle scale score n fraction seed name key val prov_records h =
     (let idx = inject_indices shuffle scale n fraction seed in
      case mutated_copies key val idx prov_records h of
        (Inl e, h2) \<Rightarrow> (Inl e, h2)
      | (Inr mut, h2) \<Rightarrow> (score name (map (nth h2) mut) idx, h2))"

text \<open>The baseline scenario scores unmodified copies with no injected index.\<close>

definition baseline_scenario ::
  "(string \<Rightarrow> pyrecord list \<Rightarrow> nat list \<Rightarrow> error + scenario_report) \<Rightarrow> string
     \<Rightarrow> addr list \<Rightarrow> heap \<Rightarrow> (error + scenario_report) \<times> heap" where
  "baseline_scenario score name prov_records h =
     (case copy_records prov_records h of
        (mut, h1) \<Rightarrow> (score name (map (nth h1) mut) [], h1))"

text \<open>Sequencing: an exception ends the function, the store stays as it is.\<close>

fun run_all ::
  "(heap \<Rightarrow> (error + scenario_report) \<times> heap) list \<Rightarrow> heap \<Rightarrow> (error + scenario_report list) \<times> heap" where
  "run_all [] h = (Inr [], h)"
| "run_all (step # steps) h =
     (case step h of
        (Inl e, h1) \<Rightarrow> (Inl e, h1)
      | (Inr s, h1) \<Rightarrow>
          (case run_all steps h1 of
             (Inl e, h2) \<Rightarrow> (Inl e, h2)
           | (Inr ss, h2) \<Rightarrow> (Inr (s # ss), h2)))"

text \<open>\<^verbatim>\<open>mandatory_fields[0]\<close>\<close>

definition first_field :: "string list \<Rightarrow> error + string" where
  "first_field mandatory_fields =
     (case mandatory_fields of [] \<Rightarrow> Inl IndexError | f # fs \<Rightarrow> Inr f)"

definition deadbeef :: string where
  "deadbeef = concat (replicate 8 ''deadbeef'')"

text \<open>\<^verbatim>\<open>run_failure_scenarios\<close> of the extended script.\<close>

definition run_failure_scenarios ::
  "(int \<Rightarrow> nat list \<Rightarrow> nat list) \<Rightarrow> (nat \<Rightarrow> rat \<Rightarrow> int) \<Rightarrow> pyrecord list \<Rightarrow> string list \<Rightarrow> addr list \<Rightarrow> string list \<Rightarrow> heap
     \<Rightarrow> (error + scenario_report list) \<times> heap" where
  "run_failure_scenarios shuffle scale source hashes prov_records mandatory_fields h =
     (let n = length source;
          score = scenario_result n (set hashes) (source_by_hash hashes source) mandatory_fields
      in run_all
           [baseline_scenario score ''baseline_provenance'' prov_records,
            inject_scenario shuffle scale score n (1 / 10) 61 ''orphan_parent_link''
              (Inr ''parent_sha256'') (\<lambda>i. Inr (VStr deadbeef)) prov_records,
            inject_scenario shuffle scale score n (1 / 10) 71 ''missing_generated_by''
              (Inr ''generated_by'') (\<lambda>i. Inr (VStr [])) prov_records,
            inject_scenario shuffle scale score n (1 / 10) 81 ''mandatory_context_erasure''
              (first_field mandatory_fields) (\<lambda>i. Inr (VStr [])) prov_records,
            inject_scenario shuffle scale score n (1 / 10) 91 ''generated_label_stripped''
              (Inr ''generated_label'') (\<lambda>i. Inr (VStr [])) prov_records]
           h)"

text \<open>
  The two-hop scenarios of \<^verbatim>\<open>run_stream\<close> in the LLM script (from
  \<^verbatim>\<open>scenarios: list[dict[str, Any]] = []\<close> to the last \<^verbatim>\<open>scenarios.append\<close>); \<open>n\<close> is
  \<^verbatim>\<open>len(records)\<close>.
\<close>

definition ancestor_of_next :: "nat \<Rightarrow> string list \<Rightarrow> nat \<Rightarrow> error + pyval" where
  "ancestor_of_next n hashes i =
     (if n = 0 then Inl ZeroDivisionError
      else if (i + 1) mod n < length hashes then Inr (VStr (hashes ! ((i + 1) mod n)))
      else Inl IndexError)"

definition two_hop_scenarios ::
  "(int \<Rightarrow> nat list \<Rightarrow> nat list) \<Rightarrow> (nat \<Rightarrow> rat \<Rightarrow> int) \<Rightarrow> nat \<Rightarrow> string list \<Rightarrow> (string \<rightharpoonup> pyrecord) \<Rightarrow> string set
     \<Rightarrow> (string \<rightharpoonup> pyrecord) \<Rightarrow> addr list \<Rightarrow> string list \<Rightarrow> heap
     \<Rightarrow> (error + scenario_report list) \<times> heap" where
  "two_hop_scenarios shuffle scale n hashes by_hash hop1_hash_set hop1_by_hash prov_hop2
     mandatory_fields h =
     (let check_two_hop = (\<lambda>r. audit_two_hop (set hashes) by_hash hop1_hash_set hop1_by_hash r mandatory_fields);
          score = (\<lambda>name mutated idx. scenario_result_llm name mutated idx check_two_hop)
      in run_all
           [baseline_scenario score ''two_hop_baseline_provenance'' prov_hop2,
            inject_scenario shuffle scale score n (1 / 5) 401 ''two_hop_orphan_parent_link''
              (Inr ''parent_sha256'') (\<lambda>i. Inr (VStr deadbeef)) prov_hop2,
            inject_scenario shuffle scale score n (1 / 5) 402 ''two_hop_ancestor_mismatch''
              (Inr ''ancestor_source_sha256'') (ancestor_of_next n hashes) prov_hop2,
            inject_scenario shuffle scale score n (1 / 5) 403 ''two_hop_context_erasure''
              (first_field mandatory_fields) (\<lambda>i. Inr (VStr [])) prov_hop2,
            inject_scenario shuffle scale score n (1 / 5) 404 ''two_hop_generated_label_stripped''
              (Inr ''generated_label'') (\<lambda>i. Inr (VStr [])) prov_hop2]
           h)"

text \<open>
  The lineage-break metrics of \<^verbatim>\<open>eval_stream\<close> (the tamper and the parent-mismatch
  metrics divide in the same way): the records are given by value, \<open>n\<close> is
  \<^verbatim>\<open>len(source)\<close>.
\<close>

fun blank_field :: "string \<Rightarrow> nat list \<Rightarrow> pyrecord list \<Rightarrow> error + pyrecord list" where
  "blank_field key [] rs = Inr rs"
| "blank_field key (i # idx) rs =
     (if i < length rs then blank_field key idx (rs[i := AList.update key (VStr []) (rs ! i)])
      else Inl IndexError)"

definition py_div :: "int \<Rightarrow> int \<Rightarrow> error + rat" where
  "py_div a b = (if b = 0 then Inl ZeroDivisionError else Inr (of_int a / of_int b))"

definition lineage_break_metrics ::
  "(int \<Rightarrow> nat list \<Rightarrow> nat list) \<Rightarrow> (nat \<Rightarrow> rat \<Rightarrow> int) \<Rightarrow> nat \<Rightarrow> pyrecord list \<Rightarrow> error + rat \<times> rat" where
  "lineage_break_metrics shuffle scale n prov =
     (let lineage_break_idxs = inject_indices shuffle scale n (1 / 10) 41 in
      case blank_field ''parent_sha256'' lineage_break_idxs prov of
        Inl e \<Rightarrow> Inl e
      | Inr broken \<Rightarrow>
          (let broken_detected = failed_indices lineage_complete broken in
           case py_div (int (card (set broken_detected \<inter> set lineage_break_idxs)))
                  (int (length lineage_break_idxs)) of
             Inl e \<Rightarrow> Inl e
           | Inr lineage_recall \<Rightarrow>
               (case py_div (int (length (filter (\<lambda>i. i \<notin> set lineage_break_idxs) broken_detected)))
                       (int n - int (length lineage_break_idxs)) of
                  Inl e \<Rightarrow> Inl e
                | Inr lineage_fp \<Rightarrow> Inr (lineage_recall, lineage_fp))))"


section \<open>Properties of the index selection\<close>

lemma inject_indices_length:
  assumes "mset (shuffle seed [0..<n]) = mset [0..<n]"
  shows "length (inject_indices shuffle scale n fraction seed) = min n (nat (max 1 (scale n fraction)))"
proof -
  have "length (shuffle seed [0..<n]) = n"
    using assms by (metis length_upt mset_eq_length minus_nat.diff_0)
  then show ?thesis
    by (simp add: inject_indices_def Let_def min.commute)
qed

lemma inject_indices_distinct:
  assumes "mset (shuffle seed [0..<n]) = mset [0..<n]"
  shows "distinct (inject_indices shuffle scale n fraction seed)"
proof -
  have "distinct (shuffle seed [0..<n])"
    using assms by (metis distinct_upt mset_eq_imp_distinct_iff)
  then show ?thesis
    by (simp add: inject_indices_def Let_def)
qed

lemma inject_indices_range:
  assumes "mset (shuffle seed [0..<n]) = mset [0..<n]"
  shows "set (inject_indices shuffle scale n fraction seed) \<subseteq> {0..<n}"
proof -
  have "set (shuffle seed [0..<n]) = {0..<n}"
    using assms by (metis mset_eq_setD set_upt)
  then show ?thesis
    using set_take_subset [of "nat (max 1 (scale n fraction))" "shuffle seed [0..<n]"]
    by (simp add: inject_indices_def Let_def)
qed

lemma inject_indices_sorted: "sorted (inject_indices shuffle scale n fraction seed)"
  by (simp add: inject_indices_def Let_def)

lemma inject_indices_nonempty:
  assumes "mset (shuffle seed [0..<n]) = mset [0..<n]" and "0 < n"
  shows "inject_indices shuffle scale n fraction seed \<noteq> []"
proof -
  have "0 < length (inject_indices shuffle scale n fraction seed)"
    using assms by (simp add: inject_indices_length)
  then show ?thesis by auto
qed

lemma ceiling_twelve_fifths: "\<lceil>12 / 5 :: rat\<rceil> = 3"
  by (simp add: ceiling_eq_iff)

text \<open>
  Claim C4, as amended. For every permutation that the shuffle produces and every value
  \<open>scale n fraction\<close> of \<^verbatim>\<open>int(n * frac)\<close>, the selection returns
  \<open>min n (max 1 (scale n fraction))\<close> indices: the float product is truncated, not rounded
  up, at least one index is asked for and no more than \<open>n\<close> exist. The indices are
  distinct, sorted and below \<open>n\<close>. The selection is a function of \<open>n\<close>, the fraction and
  the seed, so two calls with the same arguments return the same list.
\<close>

theorem inject_indices_count:
  assumes "mset (shuffle seed [0..<n]) = mset [0..<n]"
  shows "length (inject_indices shuffle scale n fraction seed)
           = min n (nat (max 1 (scale n fraction)))
         \<and> distinct (inject_indices shuffle scale n fraction seed)
         \<and> sorted (inject_indices shuffle scale n fraction seed)
         \<and> set (inject_indices shuffle scale n fraction seed) \<subseteq> {0..<n}"
  using inject_indices_length [of shuffle seed n scale fraction, OF assms]
    inject_indices_distinct [of shuffle seed n scale fraction, OF assms]
    inject_indices_sorted [of shuffle scale n fraction seed]
    inject_indices_range [of shuffle seed n scale fraction, OF assms]
  by simp

text \<open>
  The twelve records and the fraction 0.20 of the LLM script: \<^verbatim>\<open>12 * 0.20\<close> is
  \<^verbatim>\<open>2.4000000000000004\<close> in float arithmetic, so \<^verbatim>\<open>int(12 * 0.20)\<close> is 2. The
  reversal stands for the shuffle.
\<close>

theorem inject_indices_count_witness:
  "length (inject_indices (\<lambda>seed xs. rev xs) (\<lambda>n x. 2) 12 (1 / 5) 401) = 2"
  using inject_indices_count [of "\<lambda>seed xs. rev xs" 401 12 "\<lambda>n x. 2" "1 / 5"]
  by simp

text \<open>
  Claim C4 as stated fails: for the twelve records and the fraction 0.20 of the LLM
  script the selection has two indices, and \<open>ceil (12 * 0.2) = 3\<close>. The count does not
  depend on the permutation.
\<close>

theorem inject_indices_not_ceiling:
  "length (inject_indices (\<lambda>seed xs. rev xs) (\<lambda>n x. 2) 12 (1 / 5) 401)
     \<noteq> nat \<lceil>of_nat 12 * (1 / 5 :: rat)\<rceil>"
  by (simp add: inject_indices_def Let_def ceiling_twelve_fifths)

section \<open>Properties of the canonical encoding\<close>

lemma sort_key_fst_unique:
  fixes r1 r2 :: "('a::linorder \<times> 'b) list"
  assumes "distinct (map fst r1)" "distinct (map fst r2)" "set r1 = set r2"
  shows "sort_key fst r1 = sort_key fst r2"
proof -
  let ?s1 = "sort_key fst r1" and ?s2 = "sort_key fst r2"
  have d1: "distinct (map fst ?s1)"
    using assms(1) by (metis distinct_map distinct_sort set_sort)
  have d2: "distinct (map fst ?s2)"
    using assms(2) by (metis distinct_map distinct_sort set_sort)
  have keys: "map fst ?s1 = map fst ?s2"
  proof (rule sorted_distinct_set_unique)
    show "sorted (map fst ?s1)" "sorted (map fst ?s2)" by simp_all
    show "distinct (map fst ?s1)" by (rule d1)
    show "distinct (map fst ?s2)" by (rule d2)
    show "set (map fst ?s1) = set (map fst ?s2)" using assms(3) by simp
  qed
  have maps: "map_of ?s1 = map_of ?s2"
    using d1 d2 assms(3) by (simp add: map_of_inject_set)
  have "map snd ?s1 = map snd ?s2"
    using map_of_zip_inject [of "map snd ?s1" "map fst ?s1" "map snd ?s2"] keys d1 maps
    by (metis length_map zip_map_fst_snd)
  with keys show ?thesis
    by (metis zip_map_fst_snd)
qed

text \<open>
  Claim C6. Two records with the same key/value pairs, whatever the insertion order, have
  the same canonical JSON and so the same fingerprint (the same digest, or the same
  exception), for every digest function. A dictionary has no key twice. The fingerprint
  is a function of the record, so a repeated call returns the same value.
\<close>

theorem fingerprint_order_independent:
  assumes "distinct (map fst r1)" "distinct (map fst r2)" "set r1 = set r2"
  shows "canonical_json r1 = canonical_json r2
         \<and> sha256_value sha256 r1 = sha256_value sha256 r2"
  using sort_key_fst_unique [OF assms] by (simp add: canonical_json_def sha256_value_def)

theorem fingerprint_order_independent_witness:
  "canonical_json [(''id'', VStr ''7''), (''title'', VStr ''Vase'')]
     = canonical_json [(''title'', VStr ''Vase''), (''id'', VStr ''7'')]
   \<and> sha256_value (\<lambda>s. s) [(''id'', VStr ''7''), (''title'', VStr ''Vase'')]
     = sha256_value (\<lambda>s. s) [(''title'', VStr ''Vase''), (''id'', VStr ''7'')]"
  using fingerprint_order_independent
    [of "[(''id'', VStr ''7''), (''title'', VStr ''Vase'')]"
        "[(''title'', VStr ''Vase''), (''id'', VStr ''7'')]" "\<lambda>s. s"]
  by auto









section \<open>Properties of the audit policy\<close>

lemma audit_record_iff:
  "audit_record S M d mf \<longleftrightarrow>
     lineage_complete d \<and> field_str d ''parent_sha256'' \<in> S
     \<and> (\<exists>src. M (field_str d ''parent_sha256'') = Some src \<and> src \<noteq> []
          \<and> list_all (\<lambda>f. field_str d f = field_str src f) mf)"
  by (auto simp: audit_record_def Let_def split: option.splits)

lemma audit_one_hop_iff:
  "audit_one_hop S M d mf \<longleftrightarrow>
     lineage_complete d \<and> field_str d ''parent_sha256'' \<in> S
     \<and> (\<exists>src. M (field_str d ''parent_sha256'') = Some src \<and> src \<noteq> []
          \<and> list_all (\<lambda>f. field_str d f = field_str src f) mf)"
  by (auto simp: audit_one_hop_def Let_def split: option.splits)

lemma audit_two_hop_iff:
  "audit_two_hop S M H1 M1 d mf \<longleftrightarrow>
     lineage_complete d \<and> field_str d ''parent_sha256'' \<in> H1
     \<and> field_str d ''ancestor_source_sha256'' \<in> S
     \<and> (\<exists>hop1. M1 (field_str d ''parent_sha256'') = Some hop1 \<and> hop1 \<noteq> []
          \<and> field_str hop1 ''parent_sha256'' = field_str d ''ancestor_source_sha256'')
     \<and> (\<exists>src. M (field_str d ''ancestor_source_sha256'') = Some src \<and> src \<noteq> []
          \<and> list_all (\<lambda>f. field_str d f = field_str src f) mf)"
  by (auto simp: audit_two_hop_def Let_def split: option.splits)






text \<open>
  Claim C2. Fingerprint fields are read as the audit reads every field, as
  \<^verbatim>\<open>str(rec.get(k, ""))\<close>: the stored string, or the empty string when the field is absent.
  When the parent of the derivative is in the hop-1 fingerprint set and resolves to an
  intermediate record, the ancestor of the derivative is in the source fingerprint set,
  and the parent of the intermediate record differs from that ancestor, the two-hop
  audit rejects, whatever the other fields hold.
\<close>

theorem two_hop_chain_mismatch_rejected:
  assumes "field_str d ''parent_sha256'' \<in> H1"
      and "field_str d ''ancestor_source_sha256'' \<in> S"
      and "M1 (field_str d ''parent_sha256'') = Some hop1"
      and "field_str hop1 ''parent_sha256'' \<noteq> field_str d ''ancestor_source_sha256''"
  shows "\<not> audit_two_hop S M H1 M1 d mf"
  using assms by (simp add: audit_two_hop_def Let_def)

theorem two_hop_chain_mismatch_rejected_witness:
  "\<not> audit_two_hop {''s1'', ''s2''}
       [''s1'' \<mapsto> [(''id'', VStr ''1'')], ''s2'' \<mapsto> [(''id'', VStr ''1'')]]
       {''p1''}
       [''p1'' \<mapsto> [(''generated_label'', VStr ''DERIVED_RECORD''), (''generated_by'', VStr ''tool''),
                 (''generated_at'', VStr ''t0''), (''parent_sha256'', VStr ''s1''),
                 (''id'', VStr ''1'')]]
       [(''generated_label'', VStr ''DERIVED_RECORD''), (''generated_by'', VStr ''tool''),
        (''generated_at'', VStr ''t0''), (''parent_sha256'', VStr ''p1''),
        (''ancestor_source_sha256'', VStr ''s2''), (''id'', VStr ''1'')]
       [''id'']"
  using two_hop_chain_mismatch_rejected
    [of "[(''generated_label'', VStr ''DERIVED_RECORD''), (''generated_by'', VStr ''tool''),
          (''generated_at'', VStr ''t0''), (''parent_sha256'', VStr ''p1''),
          (''ancestor_source_sha256'', VStr ''s2''), (''id'', VStr ''1'')]"
        "{''p1''}" "{''s1'', ''s2''}"
        "[''p1'' \<mapsto> [(''generated_label'', VStr ''DERIVED_RECORD''), (''generated_by'', VStr ''tool''),
                 (''generated_at'', VStr ''t0''), (''parent_sha256'', VStr ''s1''),
                 (''id'', VStr ''1'')]]"
        "[(''generated_label'', VStr ''DERIVED_RECORD''), (''generated_by'', VStr ''tool''),
          (''generated_at'', VStr ''t0''), (''parent_sha256'', VStr ''s1''),
          (''id'', VStr ''1'')]"
        "[''s1'' \<mapsto> [(''id'', VStr ''1'')], ''s2'' \<mapsto> [(''id'', VStr ''1'')]]"
        "[''id'']"]
  by (simp add: field_str_def get_default_def)

section \<open>The builder and the one-hop audit\<close>








section \<open>Context fidelity\<close>

lemma field_str_update_same: "field_str (AList.update f v d) f = py_str v"
  by (simp add: field_str_def get_default_def update_conv')

lemma field_str_update_other: "k \<noteq> f \<Longrightarrow> field_str (AList.update f v d) k = field_str d k"
  by (simp add: field_str_def get_default_def update_conv')

lemma one_hop_change_rejected:
  assumes "audit_one_hop S M d mf" "f \<in> set mf" "f \<noteq> ''parent_sha256''"
      "py_str v \<noteq> field_str d f"
  shows "\<not> audit_one_hop S M (AList.update f v d) mf"
proof
  assume a: "audit_one_hop S M (AList.update f v d) mf"
  let ?d' = "AList.update f v d"
  have p: "field_str ?d' ''parent_sha256'' = field_str d ''parent_sha256''"
    using assms(3) by (simp add: field_str_update_other)
  from assms(1) obtain src where src: "M (field_str d ''parent_sha256'') = Some src"
      "list_all (\<lambda>f. field_str d f = field_str src f) mf"
    by (auto simp: audit_one_hop_iff)
  from a p src(1) have "list_all (\<lambda>f. field_str ?d' f = field_str src f) mf"
    by (auto simp: audit_one_hop_iff)
  then have "field_str ?d' f = field_str src f"
    using assms(2) by (simp add: list_all_iff)
  moreover have "field_str d f = field_str src f"
    using src(2) assms(2) by (simp add: list_all_iff)
  ultimately show False
    using assms(4) by (simp add: field_str_update_same)
qed

lemma two_hop_change_rejected:
  assumes "audit_two_hop S M H1 M1 d mf" "f \<in> set mf" "f \<noteq> ''ancestor_source_sha256''"
      "py_str v \<noteq> field_str d f"
  shows "\<not> audit_two_hop S M H1 M1 (AList.update f v d) mf"
proof
  assume a: "audit_two_hop S M H1 M1 (AList.update f v d) mf"
  let ?d' = "AList.update f v d"
  have p: "field_str ?d' ''ancestor_source_sha256'' = field_str d ''ancestor_source_sha256''"
    using assms(3) by (simp add: field_str_update_other)
  from assms(1) obtain src where src: "M (field_str d ''ancestor_source_sha256'') = Some src"
      "list_all (\<lambda>f. field_str d f = field_str src f) mf"
    by (auto simp: audit_two_hop_iff)
  from a p src(1) have "list_all (\<lambda>f. field_str ?d' f = field_str src f) mf"
    by (auto simp: audit_two_hop_iff)
  then have "field_str ?d' f = field_str src f"
    using assms(2) by (simp add: list_all_iff)
  moreover have "field_str d f = field_str src f"
    using src(2) assms(2) by (simp add: list_all_iff)
  ultimately show False
    using assms(4) by (simp add: field_str_update_same)
qed

lemma py_str_seven: "py_str (VInt 7) = ''7''"
  by code_simp

text \<open>
  Claim C7, as amended. In a collection whose records all pass the audit, assigning to a
  mandatory field of the record at index \<open>i\<close> a value whose string form differs from the
  string form the record had makes the audit reject the record at \<open>i\<close> and no other.
  The audit compares \<^verbatim>\<open>str\<close> of the two values, so the string form must change. The
  field is a context field: not the field that selects the source record
  (\<^verbatim>\<open>parent_sha256\<close> in the one-hop audit, \<^verbatim>\<open>ancestor_source_sha256\<close> in the two-hop
  audit).
\<close>

theorem context_change_rejected:
  assumes "i < length ds" "j < length ds" "f \<in> set mf" "py_str v \<noteq> field_str (ds ! i) f"
  shows "(list_all (\<lambda>d. audit_one_hop S M d mf) ds \<and> f \<noteq> ''parent_sha256''
            \<longrightarrow> audit_one_hop S M (ds[i := AList.update f v (ds ! i)] ! j) mf = (j \<noteq> i))
         \<and> (list_all (\<lambda>d. audit_two_hop S M H1 M1 d mf) ds \<and> f \<noteq> ''ancestor_source_sha256''
            \<longrightarrow> audit_two_hop S M H1 M1 (ds[i := AList.update f v (ds ! i)] ! j) mf = (j \<noteq> i))"
  using assms one_hop_change_rejected [of S M "ds ! i" mf f v]
    two_hop_change_rejected [of S M H1 M1 "ds ! i" mf f v]
  by (auto simp: list_all_length nth_list_update)

theorem context_change_rejected_witness:
  "\<not> audit_one_hop {''ab12''} [''ab12'' \<mapsto> [(''id'', VStr ''7'')]]
     (AList.update ''id'' (VStr ''8'')
       [(''generated_label'', VStr ''DERIVED_RECORD''), (''generated_by'', VStr ''tool''),
        (''generated_at'', VStr ''t0''), (''parent_sha256'', VStr ''ab12''), (''id'', VStr ''7'')])
     [''id'']
   \<and> \<not> audit_two_hop {''ab12''} [''ab12'' \<mapsto> [(''id'', VStr ''7'')]]
       {''cd34''} [''cd34'' \<mapsto> [(''parent_sha256'', VStr ''ab12'')]]
     (AList.update ''id'' (VStr ''8'')
       [(''generated_label'', VStr ''DERIVED_RECORD''), (''generated_by'', VStr ''tool''),
        (''generated_at'', VStr ''t0''), (''parent_sha256'', VStr ''cd34''),
        (''ancestor_source_sha256'', VStr ''ab12''), (''id'', VStr ''7'')])
     [''id'']"
  using context_change_rejected
      [of 0 "[[(''generated_label'', VStr ''DERIVED_RECORD''), (''generated_by'', VStr ''tool''),
        (''generated_at'', VStr ''t0''), (''parent_sha256'', VStr ''ab12''), (''id'', VStr ''7'')]]"
        0 "''id''" "[''id'']" "VStr ''8''" "{''ab12''}" "[''ab12'' \<mapsto> [(''id'', VStr ''7'')]]"
        "{}" "Map.empty"]
    context_change_rejected
      [of 0 "[[(''generated_label'', VStr ''DERIVED_RECORD''), (''generated_by'', VStr ''tool''),
        (''generated_at'', VStr ''t0''), (''parent_sha256'', VStr ''cd34''),
        (''ancestor_source_sha256'', VStr ''ab12''), (''id'', VStr ''7'')]]"
        0 "''id''" "[''id'']" "VStr ''8''" "{''ab12''}" "[''ab12'' \<mapsto> [(''id'', VStr ''7'')]]"
        "{''cd34''}" "[''cd34'' \<mapsto> [(''parent_sha256'', VStr ''ab12'')]]"]
  by (simp add: audit_one_hop_def audit_two_hop_def lineage_complete_def get_def get_default_def
      field_str_def)

text \<open>
  Claim C7 as stated fails: the comparison is on string forms, so replacing the string
  \<^verbatim>\<open>"7"\<close> by the integer \<^verbatim>\<open>7\<close> changes the value of the mandatory field and the audit
  still accepts the record.
\<close>

theorem context_change_undetected:
  "audit_one_hop {''ab12''} [''ab12'' \<mapsto> [(''id'', VStr ''7'')]]
     [(''generated_label'', VStr ''DERIVED_RECORD''), (''generated_by'', VStr ''tool''),
      (''generated_at'', VStr ''t0''), (''parent_sha256'', VStr ''ab12''), (''id'', VStr ''7'')]
     [''id'']
   \<and> VInt 7 \<noteq> VStr ''7''
   \<and> audit_one_hop {''ab12''} [''ab12'' \<mapsto> [(''id'', VStr ''7'')]]
     (AList.update ''id'' (VInt 7)
       [(''generated_label'', VStr ''DERIVED_RECORD''), (''generated_by'', VStr ''tool''),
        (''generated_at'', VStr ''t0''), (''parent_sha256'', VStr ''ab12''), (''id'', VStr ''7'')])
     [''id'']"
  by (simp add: audit_one_hop_def lineage_complete_def get_def get_default_def field_str_def
      py_str_seven del: py_str.simps(3))

section \<open>Frame property of the fault scenarios\<close>

lemma copy_records_fst: "fst (copy_records xs h) = [length h..<length h + length xs]"
proof (induction xs arbitrary: h)
  case Nil
  then show ?case by simp
next
  case (Cons x xs)
  have "fst (copy_records (x # xs) h) = length h # fst (copy_records xs (h @ [h ! x]))"
    by (simp add: split_beta)
  also have "\<dots> = length h # [Suc (length h)..<Suc (length h) + length xs]"
    using Cons.IH [of "h @ [h ! x]"] by simp
  also have "\<dots> = [length h..<length h + length (x # xs)]"
    using upt_conv_Cons [of "length h" "length h + Suc (length xs)"] by simp
  finally show ?case .
qed

lemma copy_records_snd: "\<exists>ys. snd (copy_records xs h) = h @ ys \<and> length ys = length xs"
proof (induction xs arbitrary: h)
  case Nil
  then show ?case by simp
next
  case (Cons x xs)
  obtain ys where ys: "snd (copy_records xs (h @ [h ! x])) = (h @ [h ! x]) @ ys" "length ys = length xs"
    using Cons.IH [of "h @ [h ! x]"] by blast
  have "snd (copy_records (x # xs) h) = h @ (h ! x # ys)"
    using ys by (simp add: split_beta)
  then show ?case using ys(2) by (intro exI [of _ "h ! x # ys"]) simp
qed

lemma copy_records_valid:
  "\<forall>x\<in>set xs. x < length h \<Longrightarrow> snd (copy_records xs h) = h @ map (nth h) xs"
proof (induction xs arbitrary: h)
  case Nil
  then show ?case by simp
next
  case (Cons x xs)
  have valid: "\<forall>y\<in>set xs. y < length (h @ [h ! x])"
    using Cons.prems by auto
  have "map (nth (h @ [h ! x])) xs = map (nth h) xs"
    using Cons.prems by (auto simp: nth_append)
  then show ?case
    using Cons.IH [OF valid] by (simp add: split_beta)
qed

lemma copy_records_frame: "take (length h) (snd (copy_records xs h)) = h"
  using copy_records_snd [of xs h] by auto

lemma copy_records_fresh: "\<forall>a\<in>set (fst (copy_records xs h)). length h \<le> a"
  by (simp add: copy_records_fst)

lemma assign_field_frame:
  "\<forall>a\<in>set mut. L \<le> a \<Longrightarrow> take L (snd (assign_field mut key val idx h)) = take L h"
proof (induction idx arbitrary: h)
  case Nil
  then show ?case by simp
next
  case (Cons i idx)
  show ?case
  proof (cases "val i")
    case (Inl e)
    then show ?thesis by simp
  next
    case (Inr v)
    show ?thesis
    proof (cases "i < length mut")
      case True
      then have "L \<le> mut ! i" using Cons.prems by simp
      then show ?thesis
        using Inr True Cons.IH [OF Cons.prems] by (simp add: take_update_cancel)
    next
      case False
      then show ?thesis using Inr by simp
    qed
  qed
qed

lemma mutated_copies_frame:
  "take (length h) (snd (mutated_copies key val idx prov_records h)) = h"
proof -
  obtain mut h1 where c: "copy_records prov_records h = (mut, h1)"
    by (cases "copy_records prov_records h")
  have fresh: "\<forall>a\<in>set mut. length h \<le> a"
    using copy_records_fresh [of prov_records h] c by simp
  have h1: "take (length h) h1 = h"
    using copy_records_frame [of h prov_records] c by simp
  show ?thesis
  proof (cases key)
    case (Inl e)
    then show ?thesis using c h1 by (simp add: mutated_copies_def)
  next
    case (Inr k)
    have "take (length h) (snd (assign_field mut k val idx h1)) = h"
      using assign_field_frame [OF fresh, of k val idx h1] h1 by simp
    then show ?thesis
      using c Inr by (auto simp: mutated_copies_def split: prod.splits sum.splits)
  qed
qed

lemma inject_scenario_frame:
  "take (length h) (snd (inject_scenario shuffle scale score n fraction seed name key val
                              prov_records h)) = h"
  using mutated_copies_frame [of h key val "inject_indices shuffle scale n fraction seed" prov_records]
  by (auto simp: inject_scenario_def Let_def split: prod.splits sum.splits)

lemma baseline_scenario_frame:
  "take (length h) (snd (baseline_scenario score name prov_records h)) = h"
  using copy_records_frame [of h prov_records]
  by (auto simp: baseline_scenario_def split: prod.splits)

lemma run_all_frame:
  "\<forall>step\<in>set steps. \<forall>h. take (length h) (snd (step h)) = h
     \<Longrightarrow> take (length h) (snd (run_all steps h)) = h"
proof (induction steps arbitrary: h)
  case Nil
  then show ?case by simp
next
  case (Cons step steps)
  obtain r h1 where s: "step h = (r, h1)" by (cases "step h")
  have h1: "take (length h) h1 = h" using Cons.prems s by (metis list.set_intros(1) snd_conv)
  have "length (take (length h) h1) = length h"
    by (simp only: h1)
  then have len: "length h \<le> length h1"
    by simp
  have rest: "take (length h1) (snd (run_all steps h1)) = h1"
    using Cons.IH [of h1] Cons.prems by simp
  have "take (length h) (snd (run_all steps h1)) = take (length h) (take (length h1) (snd (run_all steps h1)))"
    using len by (simp add: min_def)
  then have "take (length h) (snd (run_all steps h1)) = h"
    using rest h1 by simp
  then show ?case
    using s h1 by (auto split: sum.splits prod.splits)
qed

text \<open>
  Claim C9. Every scenario of \<^verbatim>\<open>run_failure_scenarios\<close> and every two-hop scenario of
  \<^verbatim>\<open>run_stream\<close> (orphan parent, missing lineage metadata, context erasure, label
  stripping, ancestor mismatch) works on copies: the dictionaries that existed before the
  call, the derivative records of the builder among them, are the same after it, field
  for field, whether the call returns the reports or raises. The copies are new
  dictionaries, at addresses the store did not have (\<open>copy_records_fresh\<close>).
\<close>

theorem scenarios_leave_originals_unchanged:
  "take (length h)
     (snd (run_failure_scenarios shuffle scale source hashes prov_records mandatory_fields h)) = h
   \<and> take (length h)
        (snd (two_hop_scenarios shuffle scale n hashes by_hash hop1_hash_set hop1_by_hash prov_hop2
                mandatory_fields h)) = h"
  unfolding run_failure_scenarios_def two_hop_scenarios_def Let_def
  by (intro conjI run_all_frame) (simp_all add: inject_scenario_frame baseline_scenario_frame)

theorem scenarios_leave_originals_unchanged_witness:
  "take (length [[(''id'', VStr ''7''), (''parent_sha256'', VStr ''ab12'')]])
     (snd (run_failure_scenarios (\<lambda>seed xs. rev xs) (\<lambda>n x. 0) [[(''id'', VStr ''7'')]] [''ab12''] [0] [''id'']
             [[(''id'', VStr ''7''), (''parent_sha256'', VStr ''ab12'')]]))
     = [[(''id'', VStr ''7''), (''parent_sha256'', VStr ''ab12'')]]
   \<and> take (length [[(''id'', VStr ''7''), (''parent_sha256'', VStr ''ab12'')]])
        (snd (two_hop_scenarios (\<lambda>seed xs. rev xs) (\<lambda>n x. 0) 1 [''ab12''] Map.empty {} Map.empty [0] [''id'']
                [[(''id'', VStr ''7''), (''parent_sha256'', VStr ''ab12'')]]))
     = [[(''id'', VStr ''7''), (''parent_sha256'', VStr ''ab12'')]]"
  by (rule scenarios_leave_originals_unchanged)

section \<open>Detection of the orphan fault\<close>

lemma fold_assign_length:
  "length (fold (\<lambda>i cs. cs[i := F (cs ! i)]) idx cs) = length cs"
  by (induction idx arbitrary: cs) simp_all

lemma update_twice: "AList.update k v (AList.update k v al) = AList.update k v al"
  by (induction al) auto

lemma fold_assign_nth:
  "j < length cs \<Longrightarrow>
   fold (\<lambda>i cs. cs[i := AList.update key w (cs ! i)]) idx cs ! j
     = (if j \<in> set idx then AList.update key w (cs ! j) else cs ! j)"
proof (induction idx arbitrary: cs)
  case Nil
  then show ?case by simp
next
  case (Cons i idx)
  let ?cs = "cs[i := AList.update key w (cs ! i)]"
  have j: "j < length ?cs" using Cons.prems by simp
  have same: "AList.update key w (?cs ! j) = AList.update key w (cs ! j)"
    using Cons.prems by (cases "j = i") (simp_all add: update_twice)
  have "fold (\<lambda>i cs. cs[i := AList.update key w (cs ! i)]) (i # idx) cs ! j
          = (if j \<in> set idx then AList.update key w (?cs ! j) else ?cs ! j)"
    using Cons.IH [OF j] by simp
  also have "\<dots> = (if j \<in> set (i # idx) then AList.update key w (cs ! j) else cs ! j)"
    using same Cons.prems by (cases "j = i") simp_all
  finally show ?case .
qed

lemma map_nth_append_upt: "map (nth (h @ cs)) [length h..<length h + length cs] = cs"
  by (rule nth_equalityI) (simp_all add: nth_append)

lemma assign_field_closed:
  "\<forall>i\<in>set idx. i < length cs \<Longrightarrow>
   assign_field [length h..<length h + length cs] key (\<lambda>i. Inr w) idx (h @ cs)
     = (Inr (), h @ fold (\<lambda>i cs. cs[i := AList.update key w (cs ! i)]) idx cs)"
proof (induction idx arbitrary: cs)
  case Nil
  then show ?case by simp
next
  case (Cons i idx)
  let ?cs = "cs[i := AList.update key w (cs ! i)]"
  have i: "i < length cs" using Cons.prems by simp
  have upd: "(h @ cs)[length h + i := AList.update key w ((h @ cs) ! (length h + i))] = h @ ?cs"
    by (simp add: list_update_append nth_append)
  have rest: "\<forall>j\<in>set idx. j < length ?cs" using Cons.prems by simp
  have "assign_field [length h..<length h + length ?cs] key (\<lambda>i. Inr w) idx (h @ ?cs)
          = (Inr (), h @ fold (\<lambda>i cs. cs[i := AList.update key w (cs ! i)]) idx ?cs)"
    using Cons.IH [OF rest] .
  then show ?case using i upd by simp
qed

lemma mutated_copies_closed:
  assumes valid: "\<forall>a\<in>set prov. a < length h"
    and idx: "\<forall>i\<in>set idx. i < length prov"
  shows "mutated_copies (Inr key) (\<lambda>i. Inr w) idx prov h
           = (Inr [length h..<length h + length prov],
              h @ fold (\<lambda>i cs. cs[i := AList.update key w (cs ! i)]) idx (map (nth h) prov))"
proof -
  have c: "copy_records prov h = ([length h..<length h + length prov], h @ map (nth h) prov)"
    using copy_records_fst [of prov h] copy_records_valid [OF valid]
    by (metis prod.collapse)
  have "assign_field [length h..<length h + length (map (nth h) prov)] key (\<lambda>i. Inr w) idx
          (h @ map (nth h) prov)
        = (Inr (), h @ fold (\<lambda>i cs. cs[i := AList.update key w (cs ! i)]) idx (map (nth h) prov))"
    using idx by (intro assign_field_closed) simp
  then show ?thesis
    using c by (simp add: mutated_copies_def)
qed

lemma filter_member_sorted:
  assumes "sorted idx" and "distinct idx" and "set idx \<subseteq> {0..<n}"
  shows "filter (\<lambda>i. i \<in> set idx) [0..<n] = idx"
proof (rule sorted_distinct_set_unique)
  show "sorted (filter (\<lambda>i. i \<in> set idx) [0..<n])" by (simp add: sorted_wrt_filter)
  show "distinct (filter (\<lambda>i. i \<in> set idx) [0..<n])" by simp
  show "sorted idx" by fact
  show "distinct idx" by fact
  show "set (filter (\<lambda>i. i \<in> set idx) [0..<n]) = set idx" using assms(3) by auto
qed

lemma orphan_rejected:
  "v \<notin> S \<Longrightarrow> \<not> audit_record S M (AList.update ''parent_sha256'' (VStr v) d) mf"
  by (simp add: audit_record_iff field_str_update_same)

lemma scenario_result_exact:
  assumes "0 < n" and "idx \<noteq> []" and "distinct idx"
    and "failed_indices (\<lambda>d. audit_record S M d mf) mutated = idx"
  shows "\<exists>r. scenario_result n S M mf name mutated idx = Inr r
           \<and> failed_count r = injected_count r
           \<and> detection_recall r = Some 1 \<and> false_positive_rate r = 0"
proof -
  have ne: "set idx \<noteq> {}" using assms(2) by simp
  have "card (set idx) \<noteq> 0" using ne by simp
  then have one: "(of_nat (card (set idx)) :: rat) / of_nat (card (set idx)) = 1" by simp
  have none: "Set.filter (\<lambda>i. i \<notin> set idx) (set idx) = {}" by auto
  show ?thesis
    using assms(1) ne one none assms(4) by (simp add: scenario_result_def Let_def)
qed

lemma deadbeef_value:
  "deadbeef = ''deadbeefdeadbeefdeadbeefdeadbeefdeadbeefdeadbeefdeadbeefdeadbeef''"
  by code_simp

text \<open>
  Claim C3, as amended. Take a non-empty collection of \<open>n\<close> derivative records that all
  pass \<^verbatim>\<open>audit_record\<close>, and a value \<open>v\<close> that is not a known source fingerprint. The
  orphan scenario (copy the records, write \<open>v\<close> to \<^verbatim>\<open>parent_sha256\<close> of the copies at the
  selected indices, score) returns a report; the copy number \<open>i\<close>, stored at address
  \<open>length h + i\<close>, passes the audit exactly when \<open>i\<close> was not selected; the report counts
  as many failures as injections, its \<^verbatim>\<open>detection_recall\<close> is 1 and its
  \<^verbatim>\<open>false_positive_rate\<close> is 0. The shuffle permutes its list; the fraction, the seed and
  the scenario name are arbitrary. The two rates are the quotients \<open>c / c\<close> and \<open>0 / d\<close> of
  positive integers, which float division gives exactly as 1.0 and 0.0.
\<close>

theorem orphan_fault_detected_exactly:
  assumes perm: "mset (shuffle seed [0..<n]) = mset [0..<n]"
    and pos: "0 < n"
    and len: "length prov_records = n"
    and valid: "\<forall>a\<in>set prov_records. a < length h"
    and clean: "\<forall>a\<in>set prov_records. audit_record S M (h ! a) mf"
    and orphan: "v \<notin> S"
  shows "\<exists>r h'. inject_scenario shuffle scale (scenario_result n S M mf) n fraction seed name
                  (Inr ''parent_sha256'') (\<lambda>i. Inr (VStr v)) prov_records h = (Inr r, h')
           \<and> (\<forall>i<n. audit_record S M (h' ! (length h + i)) mf
                       = (i \<notin> set (inject_indices shuffle scale n fraction seed)))
           \<and> failed_count r = injected_count r
           \<and> detection_recall r = Some 1 \<and> false_positive_rate r = 0"
proof -
  let ?idx = "inject_indices shuffle scale n fraction seed"
  let ?cs = "map (nth h) prov_records"
  let ?ms = "fold (\<lambda>i cs. cs[i := AList.update ''parent_sha256'' (VStr v) (cs ! i)]) ?idx ?cs"
  have range: "set ?idx \<subseteq> {0..<n}" by (rule inject_indices_range [of shuffle seed n scale fraction, OF perm])
  have dist: "distinct ?idx" by (rule inject_indices_distinct [of shuffle seed n scale fraction, OF perm])
  have sorted: "sorted ?idx" by (rule inject_indices_sorted)
  have ne: "?idx \<noteq> []" by (rule inject_indices_nonempty [of shuffle seed n scale fraction, OF perm pos])
  have idx: "\<forall>i\<in>set ?idx. i < length prov_records" using range len by auto
  have mc: "mutated_copies (Inr ''parent_sha256'') (\<lambda>i. Inr (VStr v)) ?idx prov_records h
              = (Inr [length h..<length h + length prov_records], h @ ?ms)"
    using mutated_copies_closed [OF valid idx] .
  have lms: "length ?ms = n" using len by (simp add: fold_assign_length)
  have read: "map (nth (h @ ?ms)) [length h..<length h + length prov_records] = ?ms"
    using map_nth_append_upt [of h ?ms] lms len by simp
  have verdict: "audit_record S M (?ms ! i) mf = (i \<notin> set ?idx)" if "i < n" for i
  proof -
    have i: "i < length ?cs" using that len by simp
    have "prov_records ! i \<in> set prov_records" using that len by simp
    then have "audit_record S M (?cs ! i) mf" using clean that len by simp
    then show ?thesis
      using fold_assign_nth [OF i, of "''parent_sha256''" "VStr v" ?idx] orphan_rejected [OF orphan]
      by simp
  qed
  have "failed_indices (\<lambda>d. audit_record S M d mf) ?ms = filter (\<lambda>i. i \<in> set ?idx) [0..<n]"
    using verdict lms by (auto simp: failed_indices_def intro: filter_cong)
  then have failed: "failed_indices (\<lambda>d. audit_record S M d mf) ?ms = ?idx"
    using filter_member_sorted [OF sorted dist range] by simp
  obtain r where r: "scenario_result n S M mf name ?ms ?idx = Inr r"
    "failed_count r = injected_count r" "detection_recall r = Some 1" "false_positive_rate r = 0"
    using scenario_result_exact [OF pos ne dist failed] by blast
  have run: "inject_scenario shuffle scale (scenario_result n S M mf) n fraction seed name
               (Inr ''parent_sha256'') (\<lambda>i. Inr (VStr v)) prov_records h = (Inr r, h @ ?ms)"
    using mc read r(1) by (simp add: inject_scenario_def Let_def)
  have "\<forall>i<n. audit_record S M ((h @ ?ms) ! (length h + i)) mf = (i \<notin> set ?idx)"
    using verdict by (simp add: nth_append)
  then show ?thesis using run r(2,3,4) by blast
qed

text \<open>
  Two records and the fraction 0.10 of \<^verbatim>\<open>run_failure_scenarios\<close>: \<^verbatim>\<open>int(2 * 0.10)\<close> is 0, so
  one index is selected; the reversal stands for the shuffle.
\<close>

theorem orphan_fault_detected_exactly_witness:
  "\<exists>r h'. inject_scenario (\<lambda>seed xs. rev xs) (\<lambda>n x. 0)
             (scenario_result 2 (set [''ab12'', ''cd34''])
                (source_by_hash [''ab12'', ''cd34''] [[(''id'', VStr ''7'')], [(''id'', VStr ''8'')]])
                [''id''])
             2 (1 / 10) 61 ''orphan_parent_link''
             (Inr ''parent_sha256'') (\<lambda>i. Inr (VStr deadbeef)) [0, 1]
             [transform_provenance [(''id'', VStr ''7'')] [''id''] ''ab12'' ''t0'',
              transform_provenance [(''id'', VStr ''8'')] [''id''] ''cd34'' ''t0'']
           = (Inr r, h')
         \<and> injected_count r = 1 \<and> failed_count r = 1
         \<and> detection_recall r = Some 1 \<and> false_positive_rate r = 0"
proof -
  let ?S = "set [''ab12'', ''cd34'']"
  let ?M = "source_by_hash [''ab12'', ''cd34''] [[(''id'', VStr ''7'')], [(''id'', VStr ''8'')]]"
  let ?h = "[transform_provenance [(''id'', VStr ''7'')] [''id''] ''ab12'' ''t0'',
             transform_provenance [(''id'', VStr ''8'')] [''id''] ''cd34'' ''t0'']"
  have perm: "mset ((\<lambda>seed xs. rev xs) (61 :: int) [0..<2]) = mset [0..<2]" by simp
  have valid: "\<forall>a\<in>set [0, 1 :: nat]. a < length ?h" by simp
  have clean: "\<forall>a\<in>set [0, 1 :: nat]. audit_record ?S ?M (?h ! a) [''id'']"
    by (simp add: audit_record_def lineage_complete_def get_def get_default_def field_str_def
        source_by_hash_def transform_provenance_def)
  have orphan: "deadbeef \<notin> ?S" by (simp add: deadbeef_value)
  obtain r h' where r:
    "inject_scenario (\<lambda>seed xs. rev xs) (\<lambda>n x. 0) (scenario_result 2 ?S ?M [''id'']) 2 (1 / 10) 61
       ''orphan_parent_link'' (Inr ''parent_sha256'') (\<lambda>i. Inr (VStr deadbeef)) [0, 1] ?h = (Inr r, h')"
    "failed_count r = injected_count r" "detection_recall r = Some 1" "false_positive_rate r = 0"
    using orphan_fault_detected_exactly [where shuffle = "\<lambda>seed xs. rev xs" and scale = "\<lambda>n x. 0" and seed = 61 and n = 2
        and prov_records = "[0, 1]" and h = ?h and S = ?S and M = ?M and mf = "[''id'']"
        and v = deadbeef and fraction = "1 / 10" and name = "''orphan_parent_link''",
        OF perm _ _ valid clean orphan]
    by auto
  have "injected_count r = length (inject_indices (\<lambda>seed xs. rev xs) (\<lambda>n x. 0) 2 (1 / 10) 61)"
    using r(1)
    by (auto simp: inject_scenario_def scenario_result_def Let_def split: prod.splits sum.splits)
  also have "\<dots> = 1"
    by (simp add: inject_indices_def Let_def)
  finally have "injected_count r = 1" .
  then show ?thesis using r by auto
qed

text \<open>
  Claim C3 as stated fails for the empty collection, whose records all pass the audit:
  no index is selected, the recall is \<^verbatim>\<open>None\<close>, and \<^verbatim>\<open>(n - len(failed)) / n\<close> raises
  \<^verbatim>\<open>ZeroDivisionError\<close>, so no recall and no false-positive rate are computed.
\<close>

theorem orphan_scenario_raises_on_empty_collection:
  "fst (inject_scenario (\<lambda>seed xs. rev xs) (\<lambda>n x. 0) (scenario_result 0 {} Map.empty [''id'']) 0
          (1 / 10) 61
          ''orphan_parent_link'' (Inr ''parent_sha256'') (\<lambda>i. Inr (VStr deadbeef)) [] [])
     = Inl ZeroDivisionError"
  by (simp add: inject_scenario_def inject_indices_def mutated_copies_def scenario_result_def
      failed_indices_def Let_def)

section \<open>Degenerate inputs of the metrics\<close>

text \<open>
  Claim C5 does not hold of the code. With no records \<^verbatim>\<open>run_failure_scenarios\<close> raises
  \<^verbatim>\<open>ZeroDivisionError\<close> in its first scenario: \<^verbatim>\<open>scenario_result\<close> guards the divisor of
  the false-positive rate with \<^verbatim>\<open>max(1, n)\<close> and divides the pass and fail rates by \<open>n\<close>
  itself. The per-fault metrics of \<^verbatim>\<open>eval_stream\<close> divide by \<^verbatim>\<open>len(idxs)\<close>, which is 0
  for no records, and by \<^verbatim>\<open>n - len(idxs)\<close>, which is 0 for one record, where every index
  is injected. In both cases \<^verbatim>\<open>int(n * 0.10)\<close> is 0.
\<close>

theorem metrics_raise_on_degenerate_input:
  "fst (run_failure_scenarios (\<lambda>seed xs. rev xs) (\<lambda>n x. 0) [] [] [] [''id''] [])
     = Inl ZeroDivisionError
   \<and> lineage_break_metrics (\<lambda>seed xs. rev xs) (\<lambda>n x. 0) 0 [] = Inl ZeroDivisionError
   \<and> lineage_break_metrics (\<lambda>seed xs. rev xs) (\<lambda>n x. 0) 1 [[(''parent_sha256'', VStr ''ab12'')]]
       = Inl ZeroDivisionError"
  by (simp add: run_failure_scenarios_def baseline_scenario_def scenario_result_def
      failed_indices_def lineage_break_metrics_def inject_indices_def py_div_def
      Let_def)

end
